theory Spec2Isabelle
  imports Main
begin

section \<open>The diff of the formatting handler\<close>

text \<open>\<^verbatim>\<open>handleDocumentFormattingRequest\<close>, server.ts lines 310-333.\<close>

text \<open>
  A JavaScript string is a sequence of UTF-16 code units; \<open>s[k]\<close> reads the unit at
  index \<open>k\<close> and \<open>s.length\<close> counts units. The two scans below only compare units for
  equality, so the text is a list over any type of units (\<open>string\<close> in the examples).
\<close>

text \<open>
  \<^verbatim>\<open>let i = 0;
  while (i < string0.length && i < string1.length && string0[i] === string1[i]) { ++i; }\<close>
\<close>

function prefixScan :: "'a list \<Rightarrow> 'a list \<Rightarrow> nat \<Rightarrow> nat" where
  "prefixScan string0 string1 i =
     (if i < length string0 \<and> i < length string1 \<and> string0 ! i = string1 ! i
      then prefixScan string0 string1 (i + 1)
      else i)"
  by pat_completeness auto
termination
  by (relation "measure (\<lambda>(string0, string1, i). length string0 - i)") auto

declare prefixScan.simps [simp del]

text \<open>
  \<^verbatim>\<open>let j = 0;
  while (i + j < string0.length && i + j < string1.length &&
         string0[string0.length - j - 1] === string1[string1.length - j - 1]) { ++j; }\<close>
  Inside the loop \<open>j < length\<close> of both strings, so both indices are in range.
\<close>

function suffixScan :: "'a list \<Rightarrow> 'a list \<Rightarrow> nat \<Rightarrow> nat \<Rightarrow> nat" where
  "suffixScan string0 string1 i j =
     (if i + j < length string0 \<and> i + j < length string1 \<and>
         string0 ! (length string0 - j - 1) = string1 ! (length string1 - j - 1)
      then suffixScan string0 string1 i (j + 1)
      else j)"
  by pat_completeness auto
termination
  by (relation "measure (\<lambda>(string0, string1, i, j). length string0 - (i + j))") auto

declare suffixScan.simps [simp del]

text \<open>
  \<open>String.prototype.substring(start, end)\<close> on non-negative integers: both bounds are
  clamped to the length and swapped when \<open>start > end\<close>.
\<close>

definition substring :: "'a list \<Rightarrow> nat \<Rightarrow> nat \<Rightarrow> 'a list" where
  "substring s start end' =
     (let a = min start (length s); b = min end' (length s);
          lo = min a b; hi = max a b
      in take (hi - lo) (drop lo s))"

text \<open>
  Lines 313-329: the two offsets of \<open>string0\<close> that lines 330-331 hand to
  \<^verbatim>\<open>positionAt\<close>, and \<open>newText\<close>. The edit the handler returns is made of them by
  \<open>diffReplace\<close> below.
\<close>

record 'a spanEdit =
  startOffset :: nat
  endOffset :: nat
  newText :: "'a list"

definition diffEdit :: "'a list \<Rightarrow> 'a list \<Rightarrow> 'a spanEdit" where
  "diffEdit string0 string1 =
     (let i = prefixScan string0 string1 0;
          j = suffixScan string0 string1 i 0
      in \<lparr> startOffset = i,
           endOffset = length string0 - j,
           newText = substring string1 i (length string1 - j) \<rparr>)"

text \<open>
  Replacing a span given by two offsets: the text before the span, the new text, the
  text from the end of the span. An edit does this when the positions of its range stand
  for these offsets; \<open>applyTextEdit\<close> below applies an edit by its positions.
\<close>

definition applySpanEdit :: "'a list \<Rightarrow> 'a spanEdit \<Rightarrow> 'a list" where
  "applySpanEdit content e =
     take (startOffset e) content @ newText e @ drop (endOffset e) content"


section \<open>Values exchanged with the editor and the linter\<close>

text \<open>
  What a \<^verbatim>\<open>catch (error: unknown)\<close> block can receive: a protocol
  \<^verbatim>\<open>ResponseError\<close> (code and message, a subclass of \<^verbatim>\<open>Error\<close>), another
  \<^verbatim>\<open>Error\<close>, or a thrown value that is no \<^verbatim>\<open>Error\<close>.
\<close>

datatype thrown = ResponseError int string | Error string | NonError string

definition instanceofError :: "thrown \<Rightarrow> bool" where
  "instanceofError error = (case error of NonError _ \<Rightarrow> False | _ \<Rightarrow> True)"

text \<open>\<^verbatim>\<open>LSPErrorCodes.RequestCancelled\<close> of the protocol library.\<close>

definition RequestCancelled :: int where
  "RequestCancelled = - 32800"

text \<open>
  The promise a handler returns from \<^verbatim>\<open>new Promise((resolve, reject) => ...)\<close>:
  resolved, rejected, or left pending because the task returned without calling either.
\<close>

datatype 'a settled = Resolved 'a | Rejected thrown | Pending

record textDocumentIdentifier =
  uri :: string

text \<open>A \<^verbatim>\<open>TextDocument\<close> has a \<^verbatim>\<open>uri\<close> too, and \<^verbatim>\<open>getText()\<close> returns its content.\<close>

record textDocument = textDocumentIdentifier +
  languageId :: string
  version :: int
  getText :: string

record position =
  line :: nat
  character :: nat

record lspRange =
  rangeStart :: position
  rangeEnd :: position

record textEdit =
  editRange :: lspRange
  editNewText :: string

record cancellationToken =
  isCancellationRequested :: bool

text \<open>\<^verbatim>\<open>DocumentFormattingParams\<close>; the formatting options are not read.\<close>

record textDocumentParams =
  textDocument :: textDocumentIdentifier

record 'd codeActionContext =
  diagnostics :: "'d list"

record 'd codeActionParams = textDocumentParams +
  "context" :: "'d codeActionContext"

text \<open>
  \<^verbatim>\<open>TextDocumentChangeEvent<T>\<close>. The close handler reads the \<^verbatim>\<open>uri\<close> of its
  document at once, so there the document is a value; the task of a change notification
  reads its document later, so there it is a reference to the object (see below).
\<close>

record 'doc textDocumentChangeEvent =
  document :: 'doc

text \<open>
  A JavaScript number as far as \<^verbatim>\<open>Number.isInteger\<close> tells: an integer, or anything else
  (a fraction, \<^verbatim>\<open>NaN\<close>, an infinity).
\<close>

datatype jsnumber = Integer int | NonInteger

text \<open>
  \<^verbatim>\<open>XoConfig\<close>: the settings of package.json that server.ts reads, each optional;
  further settings are further fields of the record.
\<close>

record formatOptions =
  enable :: "bool option"

record xoConfig =
  debounce :: "jsnumber option"
  format :: "formatOptions option"

record changeConfigurationParams =
  settings_xo :: xoConfig

text \<open>\<^verbatim>\<open>DocumentFixes\<close> and the report of \<^verbatim>\<open>getLintResults\<close>, as far as they are read.\<close>

record documentFixes_t =
  edits :: "textEdit list"

record lintResult =
  "output" :: "string option"

record lintReport =
  results :: "lintResult list"

text \<open>
  The calls a handler makes to its collaborators, in order. \<open>FixGet u k\<close> is the lookup
  \<^verbatim>\<open>documentEdits.get(k)\<close> in the fix map of document \<open>u\<close>.
\<close>

datatype ('d, 'fix) call =
    GetDocumentConfig string
  | GetDocumentFixes string
  | GetLintResults textDocument string bool
  | LintDocumentDebounced textDocument
  | Log string
  | LogError thrown
  | SendDiagnostics string "'d list"
  | ComputeKey 'd
  | FixGet string string
  | Build 'd 'fix textDocument

section \<open>The text document library\<close>

text \<open>
  \<^verbatim>\<open>positionAt\<close>, \<^verbatim>\<open>offsetAt\<close> and \<^verbatim>\<open>TextDocument.applyEdits\<close> are those of
  \<^verbatim>\<open>FullTextDocument\<close> in the package vscode-languageserver-textdocument, which
  server.ts imports (line 22). A line ends at a line feed, at a carriage return, or at
  a carriage return followed by a line feed.
\<close>

definition isEOL :: "char \<Rightarrow> bool" where
  "isEOL c = (c = CHR 0x0D \<or> c = CHR 0x0A)"

text \<open>
  \<^verbatim>\<open>computeLineOffsets(text, true)\<close>: the offsets at which the lines start.
  \<^verbatim>\<open>for (let i = 0; i < text.length; i++) { const ch = text.charCodeAt(i);
    if (isEOL(ch)) { if (ch === 13 && i + 1 < text.length && text.charCodeAt(i + 1) === 10) { i++; }
                     result.push(i + 1); } }\<close>
\<close>

function computeLineOffsetsFrom :: "string \<Rightarrow> nat \<Rightarrow> nat list" where
  "computeLineOffsetsFrom text i =
     (if i < length text
      then
        (if isEOL (text ! i)
         then
           (if text ! i = CHR 0x0D \<and> i + 1 < length text \<and> text ! (i + 1) = CHR 0x0A
            then (i + 2) # computeLineOffsetsFrom text (i + 2)
            else (i + 1) # computeLineOffsetsFrom text (i + 1))
         else computeLineOffsetsFrom text (i + 1))
      else [])"
  by pat_completeness auto
termination
  by (relation "measure (\<lambda>(text, i). length text - i)") auto

declare computeLineOffsetsFrom.simps [simp del]

definition getLineOffsets :: "string \<Rightarrow> nat list" where
  "getLineOffsets content = 0 # computeLineOffsetsFrom content 0"

text \<open>
  \<^verbatim>\<open>ensureBeforeEOL(offset, lineOffset)\<close>:
  \<^verbatim>\<open>while (offset > lineOffset && isEOL(this._content.charCodeAt(offset - 1))) { offset--; }\<close>
  Beyond the text \<^verbatim>\<open>charCodeAt\<close> is \<^verbatim>\<open>NaN\<close>, which is no line end.
\<close>

function ensureBeforeEOL :: "string \<Rightarrow> nat \<Rightarrow> nat \<Rightarrow> nat" where
  "ensureBeforeEOL content offset lineOffset =
     (if offset > lineOffset \<and> offset - 1 < length content \<and> isEOL (content ! (offset - 1))
      then ensureBeforeEOL content (offset - 1) lineOffset
      else offset)"
  by pat_completeness auto
termination
  by (relation "measure (\<lambda>(content, offset, lineOffset). offset)") auto

declare ensureBeforeEOL.simps [simp del]

text \<open>
  The binary search of \<^verbatim>\<open>positionAt\<close>:
  \<^verbatim>\<open>while (low < high) { const mid = Math.floor((low + high) / 2);
    if (lineOffsets[mid] > offset) { high = mid; } else { low = mid + 1; } }\<close>
  It runs with \<open>high\<close> at most the number of lines, so \<open>mid\<close> is in range.
\<close>

function findLow :: "nat list \<Rightarrow> nat \<Rightarrow> nat \<Rightarrow> nat \<Rightarrow> nat" where
  "findLow lineOffsets offset low high =
     (if low < high
      then
        (let mid = (low + high) div 2
         in if lineOffsets ! mid > offset
            then findLow lineOffsets offset low mid
            else findLow lineOffsets offset (mid + 1) high)
      else low)"
  by pat_completeness auto
termination
  by (relation "measure (\<lambda>(lineOffsets, offset, low, high). high - low)") auto

declare findLow.simps [simp del]

text \<open>
  \<^verbatim>\<open>positionAt(offset)\<close>. The offset is clamped to the text; the line offsets start
  with 0, so the search ends with \<open>low\<close> at least 1; the position is moved before the
  line end it would fall into.
\<close>

definition TextDocument_positionAt :: "textDocument \<Rightarrow> nat \<Rightarrow> position" where
  "TextDocument_positionAt doc offset0 =
     (let content = getText doc;
          offset = min offset0 (length content);
          lineOffsets = getLineOffsets content;
          high = length lineOffsets
      in if high = 0 then \<lparr> line = 0, character = offset \<rparr>
         else
           (let low = findLow lineOffsets offset 0 high;
                line = low - 1;
                offset' = ensureBeforeEOL content offset (lineOffsets ! line)
            in \<lparr> line = line, character = offset' - lineOffsets ! line \<rparr>))"

text \<open>\<^verbatim>\<open>offsetAt(position)\<close>; line and character are not negative here.\<close>

definition TextDocument_offsetAt :: "textDocument \<Rightarrow> position \<Rightarrow> nat" where
  "TextDocument_offsetAt doc p =
     (let content = getText doc;
          lineOffsets = getLineOffsets content
      in if line p \<ge> length lineOffsets then length content
         else
           (let lineOffset = lineOffsets ! line p
            in if character p \<le> 0 then lineOffset
               else
                 (let nextLineOffset =
                        (if line p + 1 < length lineOffsets then lineOffsets ! (line p + 1)
                         else length content);
                      offset = min (lineOffset + character p) nextLineOffset
                  in ensureBeforeEOL content offset lineOffset)))"

text \<open>
  \<^verbatim>\<open>getWellformedEdit\<close>: a range whose start is after its end is turned around.
\<close>

definition getWellformedEdit :: "textEdit \<Rightarrow> textEdit" where
  "getWellformedEdit e =
     (let start = rangeStart (editRange e); end' = rangeEnd (editRange e)
      in if line start > line end' \<or> (line start = line end' \<and> character start > character end')
         then e\<lparr> editRange := \<lparr> rangeStart = end', rangeEnd = start \<rparr> \<rparr>
         else e)"

text \<open>
  \<^verbatim>\<open>TextDocument.applyEdits(document, [edit])\<close>, the library's way to apply one edit:
  the text up to the offset of the range's start, the new text, the text from the offset
  of the range's end.
\<close>

definition applyTextEdit :: "textDocument \<Rightarrow> textEdit \<Rightarrow> string" where
  "applyTextEdit doc edit =
     (let text = getText doc;
          e = getWellformedEdit edit;
          startOffset' = TextDocument_offsetAt doc (rangeStart (editRange e));
          lastModifiedOffset = TextDocument_offsetAt doc (rangeEnd (editRange e))
      in substring text 0 startOffset' @ editNewText e @ drop lastModifiedOffset text)"

fun isFixGet :: "('d, 'fix) call \<Rightarrow> bool" where
  "isFixGet (FixGet u k) = True"
| "isFixGet _ = False"

section \<open>The server's state\<close>

text \<open>
  A JavaScript \<^verbatim>\<open>Map\<close> keeps its entries in insertion order, one per key: an
  association list.
\<close>

type_synonym ('k, 'v) jsMap = "('k \<times> 'v) list"

definition Map_get :: "('k, 'v) jsMap \<Rightarrow> 'k \<Rightarrow> 'v option" where
  "Map_get m k = map_of m k"

definition Map_keys :: "('k, 'v) jsMap \<Rightarrow> 'k list" where
  "Map_keys m = map fst m"

definition Map_delete :: "'k \<Rightarrow> ('k, 'v) jsMap \<Rightarrow> ('k, 'v) jsMap" where
  "Map_delete k m = filter (\<lambda>entry. fst entry \<noteq> k) m"

definition Map_clear :: "('k, 'v) jsMap \<Rightarrow> ('k, 'v) jsMap" where
  "Map_clear m = []"

text \<open>
  The wrapper \<^verbatim>\<open>debounce(this.lintDocument, wait, {maxWait: 350})\<close>, by its parameters.
\<close>

record debounced =
  wait :: int
  maxWait :: int

text \<open>
  The fields of \<^verbatim>\<open>LintServer\<close> (lines 48-67). \<open>documents\<close> is the map of the
  \<^verbatim>\<open>TextDocuments\<close> mirror: \<^verbatim>\<open>documents.get(uri)\<close> reads it,
  \<^verbatim>\<open>documents.all()\<close> lists its values.
\<close>

record ('f, 'x, 'c, 'fix) lintServer =
  documents :: "(string, textDocument) jsMap"
  foldersCache :: "(string, 'f) jsMap"
  configurationCache :: "(string, 'c) jsMap"
  xoCache :: "(string, 'x) jsMap"
  documentFixes :: "(string, (string, 'fix) jsMap) jsMap"
  hasShownResolutionError :: bool
  currentDebounce :: int
  lintDocumentDebounced :: debounced

definition documents_get :: "('f, 'x, 'c, 'fix) lintServer \<Rightarrow> string \<Rightarrow> textDocument option" where
  "documents_get s u = Map_get (documents s) u"

definition documents_all :: "('f, 'x, 'c, 'fix) lintServer \<Rightarrow> textDocument list" where
  "documents_all s = map snd (documents s)"

text \<open>
  \<^verbatim>\<open>isDocumentOpen\<close> (line 179):
  \<^verbatim>\<open>Boolean(document?.uri && this.documents.get(document.uri))\<close>. The empty string is
  falsy, a document object is truthy.
\<close>

definition isDocumentOpen ::
  "('f, 'x, 'c, 'fix) lintServer \<Rightarrow> 'a textDocumentIdentifier_scheme \<Rightarrow> bool" where
  "isDocumentOpen s d = (uri d \<noteq> [] \<and> documents_get s (uri d) \<noteq> None)"


subsection \<open>The documents as objects\<close>

text \<open>
  \<^verbatim>\<open>TextDocuments\<close> (package vscode-languageserver) keeps one \<^verbatim>\<open>TextDocument\<close>
  object per open URI in \<^verbatim>\<open>_syncedDocuments\<close>. A change notification updates that
  object in place (\<^verbatim>\<open>TextDocument.update\<close> assigns its content and version and returns
  it) and fires \<^verbatim>\<open>onDidChangeContent\<close> with \<^verbatim>\<open>{document: thatObject}\<close>. So the event
  a handler holds and \<^verbatim>\<open>documents.get(uri)\<close> can be one object: the store maps
  references to the objects' current fields, and the field \<open>documents\<close> of the state above
  is \<open>documents_of\<close> the store at that moment.
\<close>

type_synonym objectRef = nat

record textDocuments =
  syncedDocuments :: "(string, objectRef) jsMap"
  objects :: "objectRef \<Rightarrow> textDocument"

definition documents_of :: "textDocuments \<Rightarrow> (string, textDocument) jsMap" where
  "documents_of docs = map (\<lambda>entry. (fst entry, objects docs (snd entry))) (syncedDocuments docs)"

text \<open>\<^verbatim>\<open>Map.prototype.set\<close>: a known key keeps its place, a new key goes last.\<close>

definition Map_set :: "'k \<Rightarrow> 'v \<Rightarrow> ('k, 'v) jsMap \<Rightarrow> ('k, 'v) jsMap" where
  "Map_set k v m =
     (if k \<in> set (Map_keys m) then map (\<lambda>entry. if fst entry = k then (k, v) else entry) m
      else m @ [(k, v)])"

text \<open>
  The listener of \<^verbatim>\<open>TextDocuments\<close> for \<^verbatim>\<open>textDocument/didChange\<close>, for a
  notification with URI \<open>u\<close>, version \<open>v\<close> and content changes that are not empty and
  turn the text into \<open>newContent\<close>:
  \<^verbatim>\<open>let syncedDocument = this._syncedDocuments.get(td.uri);
  if (syncedDocument !== undefined) {
    syncedDocument = this._configuration.update(syncedDocument, changes, version);
    this._syncedDocuments.set(td.uri, syncedDocument);
    this._onDidChangeContent.fire(Object.freeze({ document: syncedDocument })); }\<close>
  It returns the store and the event fired, if any.
\<close>

definition onDidChangeTextDocument ::
  "string \<Rightarrow> int \<Rightarrow> string \<Rightarrow> textDocuments \<Rightarrow>
   textDocuments \<times> objectRef textDocumentChangeEvent option" where
  "onDidChangeTextDocument u v newContent docs =
     (case Map_get (syncedDocuments docs) u of
        None \<Rightarrow> (docs, None)
      | Some syncedDocument \<Rightarrow>
          (docs\<lparr> objects := (objects docs)
                    (syncedDocument := (objects docs syncedDocument)
                                         \<lparr> version := v, getText := newContent \<rparr>),
                  syncedDocuments := Map_set u syncedDocument (syncedDocuments docs) \<rparr>,
           Some \<lparr> document = syncedDocument \<rparr>))"

section \<open>The handlers\<close>

text \<open>
  The modules bound in the constructor (\<^verbatim>\<open>getDocumentConfig\<close>, \<^verbatim>\<open>getDocumentFixes\<close>,
  \<^verbatim>\<open>getLintResults\<close>, \<^verbatim>\<open>lintDocument\<close>, \<^verbatim>\<open>lintDocuments\<close>, the logger,
  \<^verbatim>\<open>utils.computeKey\<close>, \<^verbatim>\<open>CodeActionsBuilder\<close>) and the library functions
  (\<^verbatim>\<open>TextDocument.applyEdits\<close>, \<^verbatim>\<open>positionAt\<close>, \<^verbatim>\<open>path.dirname\<close>,
  \<^verbatim>\<open>connection.sendDiagnostics\<close>) are parameters of the handlers. An awaited call
  returns \<open>Inr\<close> its value or \<open>Inl\<close> what it threw. A handler awaits each of them at most
  once per run, so a function of the arguments describes every run.
\<close>

subsection \<open>\<^verbatim>\<open>handleDidChangeConfiguration\<close> (lines 207-221)\<close>

text \<open>
  \<^verbatim>\<open>Number(x)\<close> of an absent setting is \<^verbatim>\<open>NaN\<close>, so the condition of line 209 holds
  for an integer setting only; \<open>currentDebounce\<close> starts at \<^verbatim>\<open>DEFAULT_DEBOUNCE\<close> and is
  assigned integers only. The handler ends in the call
  \<^verbatim>\<open>this.lintDocuments(this.documents.all())\<close>, which runs on the state as the lines
  before left it.
\<close>

definition DEFAULT_DEBOUNCE :: int where
  "DEFAULT_DEBOUNCE = 0"

definition handleDidChangeConfiguration ::
  "(textDocument list \<Rightarrow> ('f, 'x, 'c, 'fix) lintServer \<Rightarrow> 'r) \<Rightarrow> changeConfigurationParams \<Rightarrow>
   ('f, 'x, 'c, 'fix) lintServer \<Rightarrow> 'r" where
  "handleDidChangeConfiguration lintDocuments params s =
     (let s1 =
        (case debounce (settings_xo params) of
           Some (Integer d) \<Rightarrow>
             if d \<noteq> currentDebounce s
             then s\<lparr> currentDebounce := d,
                     lintDocumentDebounced := \<lparr> wait = d, maxWait = 350 \<rparr> \<rparr>
             else s
         | _ \<Rightarrow> s);
          s2 = s1\<lparr> configurationCache := Map_clear (configurationCache s1) \<rparr>
      in lintDocuments (documents_all s2) s2)"

subsection \<open>\<^verbatim>\<open>handleDocumentFormattingRequest\<close> (lines 256-347)\<close>

record 'c formattingCollaborators =
  getDocumentConfig :: "textDocumentIdentifier \<Rightarrow> thrown + 'c option"
  getDocumentFixes :: "string \<Rightarrow> thrown + documentFixes_t option"
  applyEdits :: "textDocument \<Rightarrow> textEdit list \<Rightarrow> thrown + string"
  getLintResults :: "textDocument \<Rightarrow> string \<Rightarrow> bool \<Rightarrow> thrown + lintReport"
  positionAt :: "textDocument \<Rightarrow> nat \<Rightarrow> position"

text \<open>\<^verbatim>\<open>config?.format?.enable\<close> is truthy.\<close>

definition formatEnabled :: "'a xoConfig_scheme option \<Rightarrow> bool" where
  "formatEnabled config =
     (case config of
        None \<Rightarrow> False
      | Some c \<Rightarrow> (case format c of None \<Rightarrow> False | Some f \<Rightarrow> enable f = Some True))"

text \<open>The \<^verbatim>\<open>catch\<close> block of lines 338-344: log an \<^verbatim>\<open>Error\<close>, reject with what was thrown.\<close>

definition catchReject ::
  "('d, 'fix) call list \<Rightarrow> thrown \<Rightarrow> 'a settled \<times> ('d, 'fix) call list" where
  "catchReject calls error =
     (Rejected error, calls @ (if instanceofError error then [LogError error] else []))"

text \<open>Lines 310-333: the single edit, its range through \<^verbatim>\<open>positionAt\<close>.\<close>

definition diffReplace ::
  "(textDocument \<Rightarrow> nat \<Rightarrow> position) \<Rightarrow> textDocument \<Rightarrow> string \<Rightarrow> string \<Rightarrow> textEdit" where
  "diffReplace posAt cachedTextDocument string0 string1 =
     (let e = diffEdit string0 string1;
          pos0 = posAt cachedTextDocument (startOffset e);
          pos1 = posAt cachedTextDocument (endOffset e)
      in \<lparr> editRange = \<lparr> rangeStart = pos0, rangeEnd = pos1 \<rparr>, editNewText = newText e \<rparr>)"

text \<open>
  Lines 285-337, after the configuration allowed formatting; \<open>calls\<close> are the calls made
  so far. Reading \<^verbatim>\<open>report.results[0].output\<close> of an empty \<^verbatim>\<open>results\<close> throws a
  \<^verbatim>\<open>TypeError\<close>.
\<close>

definition formatWithFixes ::
  "'c formattingCollaborators \<Rightarrow> textDocument \<Rightarrow> string \<Rightarrow> ('d, 'fix) call list \<Rightarrow>
   textEdit list settled \<times> ('d, 'fix) call list" where
  "formatWithFixes c cachedTextDocument u calls =
     (let calls1 = calls @ [GetDocumentFixes u] in
      case getDocumentFixes c u of
        Inl error \<Rightarrow> catchReject calls1 error
      | Inr None \<Rightarrow> (Resolved [], calls1)
      | Inr (Some fixes) \<Rightarrow>
          (let originalText = getText cachedTextDocument;
               textDocument = \<lparr> uri = uri cachedTextDocument,
                                languageId = languageId cachedTextDocument,
                                version = version cachedTextDocument,
                                getText = originalText \<rparr>
           in case applyEdits c textDocument (edits fixes) of
                Inl error \<Rightarrow> catchReject calls1 error
              | Inr editedContent \<Rightarrow>
                  (let calls2 = calls1 @ [GetLintResults textDocument editedContent True] in
                   case getLintResults c textDocument editedContent True of
                     Inl error \<Rightarrow> catchReject calls2 error
                   | Inr report \<Rightarrow>
                       (case results report of
                          [] \<Rightarrow> catchReject calls2 (Error ''TypeError'')
                        | result0 # _ \<Rightarrow>
                            (case output result0 of
                               None \<Rightarrow> (Resolved (edits fixes), calls2)
                             | Some string1 \<Rightarrow>
                                 if string1 \<noteq> [] \<and> string1 \<noteq> editedContent
                                 then (Resolved [diffReplace (positionAt c) cachedTextDocument
                                                   originalText string1],
                                       calls2 @ [Log ''Experimental replace triggered''])
                                 else (Resolved (edits fixes), calls2))))))"

text \<open>
  The task pushed on the queue (lines 261-345) and what becomes of the promise. Line 263
  returns without resolving or rejecting.
\<close>

definition handleDocumentFormattingRequest ::
  "('o xoConfig_scheme) formattingCollaborators \<Rightarrow> ('f, 'x, 'c, 'fix) lintServer \<Rightarrow>
   textDocumentParams \<Rightarrow> cancellationToken \<Rightarrow> textEdit list settled \<times> ('d, 'fix) call list" where
  "handleDocumentFormattingRequest c s params token =
     (if \<not> isDocumentOpen s (textDocument params) then (Pending, [])
      else if isCancellationRequested token
      then (Rejected (ResponseError RequestCancelled ''Request was cancelled''), [])
      else
        (case documents_get s (uri (textDocument params)) of
           None \<Rightarrow> (Resolved [], [])
         | Some cachedTextDocument \<Rightarrow>
             (let calls = [GetDocumentConfig (uri (textDocument params))] in
              case getDocumentConfig c (textDocument params) of
                Inl error \<Rightarrow> catchReject calls error
              | Inr config \<Rightarrow>
                  if \<not> formatEnabled config then (Resolved [], calls)
                  else formatWithFixes c cachedTextDocument (uri (textDocument params)) calls)))"

subsection \<open>\<^verbatim>\<open>handleCodeActionRequest\<close> (lines 353-398)\<close>

text \<open>
  \<^verbatim>\<open>documentEdits?.get(utils.computeKey(diagnostic))\<close> evaluates neither the key nor the
  lookup when the document has no fix map.
\<close>

definition handleCodeActionRequest ::
  "('d \<Rightarrow> string) \<Rightarrow> ('d \<Rightarrow> 'fix \<Rightarrow> textDocument \<Rightarrow> thrown + 'act list) \<Rightarrow>
   ('f, 'x, 'c, 'fix) lintServer \<Rightarrow> 'd codeActionParams \<Rightarrow> cancellationToken \<Rightarrow>
   'act list settled \<times> ('d, 'fix) call list" where
  "handleCodeActionRequest computeKey build s params token =
     (case diagnostics (context params) of
        [] \<Rightarrow> (Resolved [], [])
      | diagnostic # _ \<Rightarrow>
          if uri (textDocument params) = [] then (Resolved [], [])
          else if isCancellationRequested token
          then (Rejected (ResponseError RequestCancelled ''Request got cancelled''), [])
          else
            (let u = uri (textDocument params);
                 documentEdits = Map_get (documentFixes s) u;
                 textDocument = documents_get s u;
                 edit = (case documentEdits of
                           None \<Rightarrow> None
                         | Some m \<Rightarrow> Map_get m (computeKey diagnostic));
                 calls = (case documentEdits of
                            None \<Rightarrow> []
                          | Some m \<Rightarrow> [ComputeKey diagnostic, FixGet u (computeKey diagnostic)])
             in case (edit, textDocument) of
                  (Some e, Some t) \<Rightarrow>
                    (case build diagnostic e t of
                       Inl error \<Rightarrow> catchReject (calls @ [Build diagnostic e t]) error
                     | Inr actions \<Rightarrow> (Resolved actions, calls @ [Build diagnostic e t]))
                | _ \<Rightarrow> (Resolved [], calls)))"

subsection \<open>\<^verbatim>\<open>handleDocumentsOnDidChangeContent\<close> (lines 405-415)\<close>

text \<open>
  The task pushed on the queue: what its own promise does (it catches everything, so it
  never rejects) and its calls. The task reads \<^verbatim>\<open>event.document\<close> when it runs, through
  the reference the event holds. \<^verbatim>\<open>this.documents.get(uri)?.version\<close> is
  \<^verbatim>\<open>undefined\<close> for an unknown document, which differs from every version number.
\<close>

definition handleDocumentsOnDidChangeContent ::
  "(textDocument \<Rightarrow> thrown + unit) \<Rightarrow> textDocuments \<Rightarrow>
   objectRef textDocumentChangeEvent \<Rightarrow> (thrown + unit) \<times> ('d, 'fix) call list" where
  "handleDocumentsOnDidChangeContent lintDocumentDebounced_call docs event =
     (let eventDocument = objects docs (document event)
      in if Some (version eventDocument) \<noteq>
            map_option (\<lambda>tracked. version (objects docs tracked))
              (Map_get (syncedDocuments docs) (uri eventDocument))
         then (Inr (), [])
         else
           (case lintDocumentDebounced_call eventDocument of
              Inl error \<Rightarrow>
                (Inr (), [LintDocumentDebounced eventDocument] @
                         (if instanceofError error then [LogError error] else []))
            | Inr _ \<Rightarrow> (Inr (), [LintDocumentDebounced eventDocument])))"

subsection \<open>\<^verbatim>\<open>handleDocumentsOnDidClose\<close> (lines 422-439)\<close>

text \<open>
  The loop of lines 427-433 over the keys of \<open>foldersCache\<close>. Deleting the entry the
  iterator of a \<^verbatim>\<open>Map\<close> stands on does not disturb it, so the loop visits every key the
  map had when it started. \<open>folders\<close> is the \<^verbatim>\<open>Set\<close> of line 423, by its elements.
\<close>

fun evictFolders ::
  "string list \<Rightarrow> string list \<Rightarrow> ('f, 'x, 'c, 'fix) lintServer \<Rightarrow> ('f, 'x, 'c, 'fix) lintServer" where
  "evictFolders folders [] s = s"
| "evictFolders folders (folder # keys) s =
     evictFolders folders keys
       (if folder \<notin> set folders
        then s\<lparr> foldersCache := Map_delete folder (foldersCache s),
                xoCache := Map_delete folder (xoCache s),
                configurationCache := Map_delete folder (configurationCache s) \<rparr>
        else s)"

text \<open>
  The handler returns the state it leaves, what its promise does (that of
  \<^verbatim>\<open>sendDiagnostics\<close>) and its calls. When it runs, \<^verbatim>\<open>TextDocuments\<close> has already
  removed the closed document from \<open>documents\<close>.
\<close>

definition handleDocumentsOnDidClose ::
  "(string \<Rightarrow> string) \<Rightarrow> (string \<Rightarrow> 'd list \<Rightarrow> thrown + unit) \<Rightarrow>
   ('f, 'x, 'c, 'fix) lintServer \<Rightarrow> textDocument textDocumentChangeEvent \<Rightarrow>
   ('f, 'x, 'c, 'fix) lintServer \<times> (thrown + unit) \<times> ('d, 'fix) call list" where
  "handleDocumentsOnDidClose dirname sendDiagnostics s event =
     (let folders = map (\<lambda>document. dirname (uri document)) (documents_all s);
          s' = evictFolders folders (Map_keys (foldersCache s)) s
      in (s', sendDiagnostics (uri (document event)) [],
          [SendDiagnostics (uri (document event)) []]))"


section \<open>Example values\<close>

text \<open>
  For a path with a slash after its first character and none at its end,
  \<^verbatim>\<open>path.dirname\<close> is the text before the last slash: enough for the URIs below.
\<close>

definition dirname_example :: "string \<Rightarrow> string" where
  "dirname_example p = rev (tl (dropWhile (\<lambda>c. c \<noteq> CHR ''/'') (rev p)))"

definition document_a :: textDocument where
  "document_a = \<lparr> uri = ''file:///v/a.js'', languageId = ''javascript'', version = 1,
                   getText = ''let y'' \<rparr>"

definition document_b :: textDocument where
  "document_b = \<lparr> uri = ''file:///w/b.js'', languageId = ''javascript'', version = 3,
                   getText = ''const x=1'' \<rparr>"

definition config_off :: xoConfig where
  "config_off = \<lparr> debounce = None, format = Some \<lparr> enable = Some False \<rparr> \<rparr>"

text \<open>
  A server with \<open>b.js\<close> open in folder \<open>w\<close>, after \<open>a.js\<close> in folder \<open>v\<close> was
  removed from \<open>documents\<close>; both folders are cached and both documents have fixes.
\<close>

definition server_b :: "(string, string, xoConfig, string) lintServer" where
  "server_b = \<lparr> documents = [(''file:///w/b.js'', document_b)],
                 foldersCache = [(''file:///w'', ''file:///w/package.json''),
                                 (''file:///v'', ''file:///v/package.json'')],
                 configurationCache = [(''file:///w'', config_off), (''file:///v'', config_off)],
                 xoCache = [(''file:///w'', ''xo-w''), (''file:///v'', ''xo-v'')],
                 documentFixes = [(''file:///w/b.js'', [(''semi-0-9'', ''fix-semi'')]),
                                  (''file:///v/a.js'', [(''prefer-const-0-3'', ''fix-const'')])],
                 hasShownResolutionError = False,
                 currentDebounce = 0,
                 lintDocumentDebounced = \<lparr> wait = 0, maxWait = 350 \<rparr> \<rparr>"

text \<open>
  A server with no open document whose module and configuration caches hold a key that
  \<open>foldersCache\<close> does not.
\<close>

definition server_orphan :: "(string, string, xoConfig, string) lintServer" where
  "server_orphan = \<lparr> documents = [],
                      foldersCache = [],
                      configurationCache = [(''file:///v'', config_off)],
                      xoCache = [(''file:///v'', ''xo-v'')],
                      documentFixes = [],
                      hasShownResolutionError = False,
                      currentDebounce = 0,
                      lintDocumentDebounced = \<lparr> wait = 0, maxWait = 350 \<rparr> \<rparr>"

definition token_live :: cancellationToken where
  "token_live = \<lparr> isCancellationRequested = False \<rparr>"

definition token_cancelled :: cancellationToken where
  "token_cancelled = \<lparr> isCancellationRequested = True \<rparr>"

definition collaborators_off :: "xoConfig formattingCollaborators" where
  "collaborators_off =
     \<lparr> getDocumentConfig = (\<lambda>d. Inr (Some config_off)),
       getDocumentFixes = (\<lambda>u. Inr (Some \<lparr> edits = [] \<rparr>)),
       applyEdits = (\<lambda>d es. Inr (getText d)),
       getLintResults = (\<lambda>d t f. Inr \<lparr> results = [\<lparr> output = None \<rparr>] \<rparr>),
       positionAt = (\<lambda>d n. \<lparr> line = 0, character = n \<rparr>) \<rparr>"

definition formatting_a :: textDocumentParams where
  "formatting_a = \<lparr> textDocument = \<lparr> uri = ''file:///v/a.js'' \<rparr> \<rparr>"

definition formatting_b :: textDocumentParams where
  "formatting_b = \<lparr> textDocument = \<lparr> uri = ''file:///w/b.js'' \<rparr> \<rparr>"

definition computeKey_example :: "string \<Rightarrow> string" where
  "computeKey_example diagnostic = diagnostic @ ''-0-9''"

definition build_example :: "string \<Rightarrow> string \<Rightarrow> textDocument \<Rightarrow> thrown + string list" where
  "build_example diagnostic edit doc = Inr [''Fix '' @ diagnostic @ '' with '' @ edit]"

definition codeAction_b :: "string codeActionParams" where
  "codeAction_b = \<lparr> textDocument = \<lparr> uri = ''file:///w/b.js'' \<rparr>,
                    context = \<lparr> diagnostics = [''semi'', ''quotes''] \<rparr> \<rparr>"

definition sendDiagnostics_ok :: "string \<Rightarrow> string list \<Rightarrow> thrown + unit" where
  "sendDiagnostics_ok u ds = Inr ()"

definition close_a :: "textDocument textDocumentChangeEvent" where
  "close_a = \<lparr> document = document_a \<rparr>"

text \<open>The documents of \<open>server_b\<close> as objects: \<open>b.js\<close> is object 0.\<close>

definition textDocuments_b :: textDocuments where
  "textDocuments_b = \<lparr> syncedDocuments = [(''file:///w/b.js'', 0)],
                        objects = (\<lambda>r. document_b) \<rparr>"

definition change_b :: "objectRef textDocumentChangeEvent" where
  "change_b = \<lparr> document = 0 \<rparr>"








definition lintDocumentDebounced_ok :: "textDocument \<Rightarrow> thrown + unit" where
  "lintDocumentDebounced_ok d = Inr ()"

section \<open>The diff in offsets\<close>

lemma prefixScan_le:
  "i \<le> length s0 \<Longrightarrow> i \<le> length s1 \<Longrightarrow>
   prefixScan s0 s1 i \<le> length s0 \<and> prefixScan s0 s1 i \<le> length s1"
  apply (induction s0 s1 i rule: prefixScan.induct)
  subgoal for s0 s1 i
    by (subst (1 2) prefixScan.simps) auto
  done

lemma prefixScan_take:
  "take i s0 = take i s1 \<Longrightarrow> i \<le> length s0 \<Longrightarrow> i \<le> length s1 \<Longrightarrow>
   take (prefixScan s0 s1 i) s0 = take (prefixScan s0 s1 i) s1"
  apply (induction s0 s1 i rule: prefixScan.induct)
  subgoal for s0 s1 i
    by (subst (1 2) prefixScan.simps) (auto simp: take_Suc_conv_app_nth)
  done

lemma suffixScan_le:
  "i + j \<le> length s0 \<Longrightarrow> i + j \<le> length s1 \<Longrightarrow>
   i + suffixScan s0 s1 i j \<le> length s0 \<and> i + suffixScan s0 s1 i j \<le> length s1"
  apply (induction s0 s1 i j rule: suffixScan.induct)
  subgoal for s0 s1 i j
    by (subst (1 2) suffixScan.simps) auto
  done

lemma drop_one_more:
  assumes "j < length s"
  shows "drop (length s - Suc j) s = s ! (length s - j - 1) # drop (length s - j) s"
proof -
  have "length s - Suc j < length s"
    using assms by simp
  then have "drop (length s - Suc j) s =
             s ! (length s - Suc j) # drop (Suc (length s - Suc j)) s"
    by (simp add: Cons_nth_drop_Suc)
  moreover have "Suc (length s - Suc j) = length s - j"
    using assms by simp
  ultimately show ?thesis by simp
qed

lemma suffixScan_drop:
  "drop (length s0 - j) s0 = drop (length s1 - j) s1 \<Longrightarrow>
   i + j \<le> length s0 \<Longrightarrow> i + j \<le> length s1 \<Longrightarrow>
   drop (length s0 - suffixScan s0 s1 i j) s0 = drop (length s1 - suffixScan s0 s1 i j) s1"
proof (induction s0 s1 i j rule: suffixScan.induct)
  case (1 s0 s1 i j)
  show ?case
  proof (cases "i + j < length s0 \<and> i + j < length s1 \<and>
                s0 ! (length s0 - j - 1) = s1 ! (length s1 - j - 1)")
    case True
    then have "drop (length s0 - Suc j) s0 = drop (length s1 - Suc j) s1"
      using "1.prems"(1) by (simp add: drop_one_more)
    then have "drop (length s0 - suffixScan s0 s1 i (j + 1)) s0 =
               drop (length s1 - suffixScan s0 s1 i (j + 1)) s1"
      using "1.IH" True by simp
    then show ?thesis
      using True by (subst (1 2) suffixScan.simps) simp
  next
    case False
    then show ?thesis
      using "1.prems"(1) by (subst (1 2) suffixScan.simps) auto
  qed
qed

lemma substring_in_range:
  "a \<le> b \<Longrightarrow> b \<le> length s \<Longrightarrow> substring s a b = take (b - a) (drop a s)"
  by (simp add: substring_def Let_def min_def max_def)

lemma prefix_middle_suffix:
  assumes "i + j \<le> length s"
  shows "take i s @ take (length s - j - i) (drop i s) @ drop (length s - j) s = s"
proof -
  have "drop (length s - j) s = drop (length s - j - i) (drop i s)"
    using assms by simp
  then have "take (length s - j - i) (drop i s) @ drop (length s - j) s = drop i s"
    by (metis append_take_drop_id)
  then show ?thesis by simp
qed

text \<open>
  In offsets the diff is exact: for all texts \<open>A\<close> and \<open>B\<close>, replacing the span from
  \<open>i\<close> to \<open>|A| - j\<close> of \<open>A\<close> by \<open>B\<close> from \<open>i\<close> to \<open>|B| - j\<close> gives \<open>B\<close>.
\<close>

lemma diffEdit_offsets_roundtrip: "applySpanEdit A (diffEdit A B) = B"
proof -
  define i where "i = prefixScan A B 0"
  define j where "j = suffixScan A B i 0"
  have il: "i \<le> length A \<and> i \<le> length B"
    unfolding i_def using prefixScan_le [of 0 A B] by simp
  have it: "take i A = take i B"
    unfolding i_def using prefixScan_take [of 0 A B] by simp
  have jl: "i + j \<le> length A \<and> i + j \<le> length B"
    unfolding j_def using suffixScan_le [of i 0 A B] il by simp
  have jd: "drop (length A - j) A = drop (length B - j) B"
    unfolding j_def using suffixScan_drop [of A 0 B i] il by simp
  have sub: "substring B i (length B - j) = take (length B - j - i) (drop i B)"
    using jl by (intro substring_in_range) auto
  have "applySpanEdit A (diffEdit A B) =
        take i A @ substring B i (length B - j) @ drop (length A - j) A"
    by (simp add: applySpanEdit_def diffEdit_def Let_def i_def j_def)
  also have "\<dots> = take i B @ take (length B - j - i) (drop i B) @ drop (length B - j) B"
    by (simp only: it sub jd)
  also have "\<dots> = B"
    using jl by (intro prefix_middle_suffix) simp
  finally show ?thesis .
qed



text \<open>The example of the specification: prefix \<open>const x\<close>, no common suffix.\<close>

lemma diffEdit_example:
  "diffEdit ''const x=1'' ''const x = 1;'' =
     \<lparr> startOffset = 7, endOffset = 9, newText = '' = 1;'' \<rparr>"
  by code_simp

section \<open>The edit the formatting handler returns\<close>

text \<open>
  When the two positions of the range stand for the two offsets of the diff and are in
  order, the edit of lines 330-333 turns the document's text into the linter's output.
\<close>

lemma diffReplace_roundtrip:
  assumes "getText doc = A"
    and "TextDocument_offsetAt doc (posAt doc (startOffset (diffEdit A B))) =
         startOffset (diffEdit A B)"
    and "TextDocument_offsetAt doc (posAt doc (endOffset (diffEdit A B))) =
         endOffset (diffEdit A B)"
    and "getWellformedEdit (diffReplace posAt doc A B) = diffReplace posAt doc A B"
  shows "applyTextEdit doc (diffReplace posAt doc A B) = B"
proof -
  have le: "startOffset (diffEdit A B) \<le> length A"
    using prefixScan_le [of 0 A B] by (simp add: diffEdit_def Let_def)
  have "applyTextEdit doc (diffReplace posAt doc A B) =
        substring A 0 (startOffset (diffEdit A B)) @ newText (diffEdit A B) @
        drop (endOffset (diffEdit A B)) A"
    unfolding applyTextEdit_def Let_def assms(4)
    using assms(1,2,3) by (simp add: diffReplace_def Let_def)
  also have "\<dots> = applySpanEdit A (diffEdit A B)"
    using le by (simp add: applySpanEdit_def substring_in_range)
  finally show ?thesis
    by (simp add: diffEdit_offsets_roundtrip)
qed

text \<open>So it does at the example of the specification, a text of one line.\<close>

lemma diffReplace_example:
  "applyTextEdit document_b
     (diffReplace TextDocument_positionAt document_b ''const x=1'' ''const x = 1;'') =
   ''const x = 1;''"
  by code_simp


section \<open>Configuration changes\<close>

text \<open>
  Claim C4. On every configuration-changed notification the handler ends in
  \<^verbatim>\<open>lintDocuments\<close> on all open documents, run on a state whose configuration cache is
  empty and whose module cache, root-marker cache, fix map and documents are those of the
  state before.
\<close>

theorem config_change_clears_configuration_only:
  "\<exists>s'. (\<forall>lintDocuments :: textDocument list \<Rightarrow> ('f, 'x, 'c, 'fix) lintServer \<Rightarrow> 'r.
           handleDidChangeConfiguration lintDocuments params s =
             lintDocuments (documents_all s) s') \<and>
        configurationCache s' = [] \<and> xoCache s' = xoCache s \<and>
        foldersCache s' = foldersCache s \<and> documentFixes s' = documentFixes s \<and>
        documents s' = documents s"
proof (cases "debounce (settings_xo params)")
  case None
  show ?thesis
    by (rule exI [of _ "s\<lparr> configurationCache := [] \<rparr>"])
       (simp add: handleDidChangeConfiguration_def None Map_clear_def documents_all_def)
next
  case (Some n)
  show ?thesis
  proof (cases n)
    case (Integer d)
    show ?thesis
    proof (cases "d = currentDebounce s")
      case True
      show ?thesis
        by (rule exI [of _ "s\<lparr> configurationCache := [] \<rparr>"])
           (simp add: handleDidChangeConfiguration_def Some Integer True Map_clear_def
              documents_all_def)
    next
      case False
      show ?thesis
        by (rule exI [of _ "s\<lparr> currentDebounce := d,
                               lintDocumentDebounced := \<lparr> wait = d, maxWait = 350 \<rparr>,
                               configurationCache := [] \<rparr>"])
           (simp add: handleDidChangeConfiguration_def Some Integer False Map_clear_def
              documents_all_def)
    qed
  next
    case NonInteger
    show ?thesis
      by (rule exI [of _ "s\<lparr> configurationCache := [] \<rparr>"])
         (simp add: handleDidChangeConfiguration_def Some NonInteger Map_clear_def
            documents_all_def)
  qed
qed

section \<open>Formatting requests\<close>

text \<open>
  The promise of a formatting request stays pending exactly when the document is not
  open: every later path of the task resolves or rejects it.
\<close>

lemma formatWithFixes_settles: "fst (formatWithFixes c d u calls) \<noteq> Pending"
  by (simp add: formatWithFixes_def catchReject_def Let_def
        split: sum.splits option.splits list.splits)

lemma formatting_pending_iff:
  "fst (handleDocumentFormattingRequest c s params token) = Pending \<longleftrightarrow>
   \<not> isDocumentOpen s (textDocument params)"
  by (simp add: handleDocumentFormattingRequest_def catchReject_def Let_def
        formatWithFixes_settles split: sum.splits option.splits)

lemma formatting_cancelled_rejects:
  "isDocumentOpen s (textDocument params) \<Longrightarrow> isCancellationRequested token \<Longrightarrow>
   handleDocumentFormattingRequest c s params token =
     (Rejected (ResponseError RequestCancelled ''Request was cancelled''), [])"
  by (simp add: handleDocumentFormattingRequest_def)

text \<open>
  Claim C3, at a request for a document that is not open (\<open>a.js\<close> is not in
  \<open>documents\<close>) with a token that is not cancelled: the task returns at line 263, the
  promise is neither resolved nor rejected, and no collaborator is called.
\<close>

theorem formatting_closed_document_pending:
  "handleDocumentFormattingRequest collaborators_off server_b formatting_a token_live =
     (Pending, ([] :: (string, string) call list))"
  by (simp add: handleDocumentFormattingRequest_def isDocumentOpen_def documents_get_def
        Map_get_def server_b_def formatting_a_def)

text \<open>
  Claim C6 as stated fails at a request whose token is already cancelled: \<open>b.js\<close> is open
  and its configuration has formatting disabled, and the promise is rejected, not
  resolved with the empty list.
\<close>

theorem formatting_disabled_cancelled_counterexample:
  "isDocumentOpen server_b (textDocument formatting_b) \<and>
   getDocumentConfig collaborators_off (textDocument formatting_b) = Inr (Some config_off) \<and>
   \<not> formatEnabled (Some config_off) \<and>
   handleDocumentFormattingRequest collaborators_off server_b formatting_b token_cancelled =
     (Rejected (ResponseError (- 32800) ''Request was cancelled''),
      ([] :: (string, string) call list))"
  by (simp add: handleDocumentFormattingRequest_def isDocumentOpen_def documents_get_def
        Map_get_def server_b_def token_cancelled_def formatting_b_def collaborators_off_def
        formatEnabled_def config_off_def RequestCancelled_def)

text \<open>
  Claim C6, amended. For every formatting request against an open document whose
  configuration resolves to none or to one with \<^verbatim>\<open>format.enable\<close> falsy, no call to
  \<^verbatim>\<open>getDocumentFixes\<close> or \<^verbatim>\<open>getLintResults\<close> is made, and the promise resolves
  with the empty edit list when cancellation was not requested before the task started.
\<close>

theorem formatting_disabled_no_fix_pipeline:
  assumes "isDocumentOpen s (textDocument params)"
    and "getDocumentConfig c (textDocument params) = Inr config"
    and "\<not> formatEnabled config"
  shows "(\<not> isCancellationRequested token \<longrightarrow>
            fst (handleDocumentFormattingRequest c s params token) = Resolved []) \<and>
         (\<forall>u. GetDocumentFixes u \<notin>
                set (snd (handleDocumentFormattingRequest c s params token))) \<and>
         (\<forall>d t f. GetLintResults d t f \<notin>
                set (snd (handleDocumentFormattingRequest c s params token)))"
  using assms
  by (auto simp: handleDocumentFormattingRequest_def isDocumentOpen_def split: option.splits)

text \<open>Claim C6, amended, at \<open>b.js\<close> with a token that is not cancelled.\<close>

theorem formatting_disabled_no_fix_pipeline_witness:
  "isDocumentOpen server_b (textDocument formatting_b) \<and>
   getDocumentConfig collaborators_off (textDocument formatting_b) = Inr (Some config_off) \<and>
   \<not> formatEnabled (Some config_off) \<and>
   \<not> isCancellationRequested token_live \<and>
   handleDocumentFormattingRequest collaborators_off server_b formatting_b token_live =
     (Resolved [], [GetDocumentConfig ''file:///w/b.js'' :: (string, string) call])"
proof -
  have h1: "isDocumentOpen server_b (textDocument formatting_b)"
    by (simp add: isDocumentOpen_def documents_get_def Map_get_def server_b_def
          formatting_b_def)
  have h2: "getDocumentConfig collaborators_off (textDocument formatting_b) =
            Inr (Some config_off)"
    by (simp add: collaborators_off_def)
  have h3: "\<not> formatEnabled (Some config_off)"
    by (simp add: formatEnabled_def config_off_def)
  have h4: "\<not> isCancellationRequested token_live"
    by (simp add: token_live_def)
  have calls: "snd (handleDocumentFormattingRequest collaborators_off server_b formatting_b
                 token_live) = [GetDocumentConfig ''file:///w/b.js'' :: (string, string) call]"
    by (simp add: handleDocumentFormattingRequest_def token_live_def documents_get_def
          Map_get_def server_b_def isDocumentOpen_def collaborators_off_def formatEnabled_def
          config_off_def formatting_b_def)
  have "fst (handleDocumentFormattingRequest collaborators_off server_b formatting_b
               token_live :: textEdit list settled \<times> (string, string) call list) = Resolved []"
    using formatting_disabled_no_fix_pipeline [OF h1 h2 h3, of token_live] h4 by blast
  with calls h1 h2 h3 h4 show ?thesis
    by (simp add: prod_eq_iff)
qed

section \<open>Document changes\<close>

text \<open>
  The guard of line 408 skips a task whose event holds an object that is no longer the
  one tracked at its version: after the document was closed, or closed and opened again.
\<close>

lemma change_task_skips_on_mismatch:
  assumes "Some (version (objects docs (document event))) \<noteq>
           map_option (\<lambda>tracked. version (objects docs tracked))
             (Map_get (syncedDocuments docs) (uri (objects docs (document event))))"
  shows "handleDocumentsOnDidChangeContent lintDocumentDebounced_call docs event = (Inr (), [])"
  using assms by (simp add: handleDocumentsOnDidChangeContent_def Let_def)

text \<open>
  While the event's object is the one tracked for its URI, both sides of line 408 read
  that object, and the task calls \<^verbatim>\<open>lintDocumentDebounced\<close> whatever version the
  notification had.
\<close>

lemma change_task_lints_tracked_object:
  assumes "Map_get (syncedDocuments docs) (uri (objects docs (document event))) =
           Some (document event)"
  shows "hd (snd (handleDocumentsOnDidChangeContent lintDocumentDebounced_call docs event)) =
         LintDocumentDebounced (objects docs (document event)) \<and>
         snd (handleDocumentsOnDidChangeContent lintDocumentDebounced_call docs event) \<noteq> []"
  using assms by (simp add: handleDocumentsOnDidChangeContent_def Let_def split: sum.splits)

text \<open>
  Claim C5, at two change notifications for \<open>b.js\<close>, of version 4 and then of version
  5, both received before the task queued for the first one runs. Both fire their event
  with the one object of \<open>b.js\<close>. When the task of the version 4 notification runs, the
  tracked version is 5, and the task calls \<^verbatim>\<open>lintDocumentDebounced\<close>, with the document
  at version 5: the superseded notification is linted, not skipped.
\<close>

theorem superseded_change_is_linted:
  "snd (onDidChangeTextDocument ''file:///w/b.js'' 4 ''const x=2'' textDocuments_b) =
     Some change_b \<and>
   snd (onDidChangeTextDocument ''file:///w/b.js'' 5 ''const x=3''
          (fst (onDidChangeTextDocument ''file:///w/b.js'' 4 ''const x=2'' textDocuments_b))) =
     Some change_b \<and>
   handleDocumentsOnDidChangeContent lintDocumentDebounced_ok
     (fst (onDidChangeTextDocument ''file:///w/b.js'' 5 ''const x=3''
        (fst (onDidChangeTextDocument ''file:///w/b.js'' 4 ''const x=2'' textDocuments_b))))
     change_b =
     (Inr (), [LintDocumentDebounced
                \<lparr> uri = ''file:///w/b.js'', languageId = ''javascript'', version = 5,
                  getText = ''const x=3'' \<rparr> :: (string, string) call])"
  by (simp add: onDidChangeTextDocument_def textDocuments_b_def change_b_def Map_get_def
        Map_set_def Map_keys_def handleDocumentsOnDidChangeContent_def document_b_def
        lintDocumentDebounced_ok_def)

section \<open>Code actions\<close>

text \<open>
  Claim C9 as stated fails at a request with two diagnostics whose token is already
  cancelled: the task rejects before any lookup, so the number of fix-key lookups is not
  one.
\<close>

theorem code_action_lookups_counterexample:
  "diagnostics (context codeAction_b) \<noteq> [] \<and>
   length (filter isFixGet (snd (handleCodeActionRequest computeKey_example build_example
      server_b codeAction_b token_cancelled))) \<noteq> 1"
  by (simp add: handleCodeActionRequest_def codeAction_b_def token_cancelled_def)

text \<open>
  Claim C9, amended. For every code-action request whose context carries a first
  diagnostic and any others, the outcome and the calls are those of the request carrying
  the first diagnostic alone; at most one fix-key lookup is performed, exactly one when
  the request names a URI, is not cancelled and the document has a fix map, and none
  otherwise; and any actions returned are those built from the first diagnostic and the
  fix cached under its key.
\<close>

theorem code_action_first_diagnostic_only:
  "let r = handleCodeActionRequest computeKey build s
             (params\<lparr> context := \<lparr> diagnostics = diagnostic # others \<rparr> \<rparr>) token;
       u = uri (textDocument params)
   in r = handleCodeActionRequest computeKey build s
            (params\<lparr> context := \<lparr> diagnostics = [diagnostic] \<rparr> \<rparr>) token \<and>
      length (filter isFixGet (snd r)) =
        (if u \<noteq> [] \<and> \<not> isCancellationRequested token \<and> Map_get (documentFixes s) u \<noteq> None
         then 1 else 0) \<and>
      (\<forall>actions. fst r = Resolved actions \<and> actions \<noteq> [] \<longrightarrow>
         (\<exists>m e t. Map_get (documentFixes s) u = Some m \<and>
                  Map_get m (computeKey diagnostic) = Some e \<and>
                  documents_get s u = Some t \<and>
                  build diagnostic e t = Inr actions))"
  by (auto simp: handleCodeActionRequest_def Let_def catchReject_def
           split: option.splits sum.splits)

text \<open>
  Claim C9, amended, at a request for \<open>b.js\<close> with the diagnostics \<open>semi\<close> and
  \<open>quotes\<close>: the one action returned is built from \<open>semi\<close> and its cached fix.
\<close>

theorem code_action_first_diagnostic_only_witness:
  "fst (handleCodeActionRequest computeKey_example build_example server_b codeAction_b token_live)
     = Resolved [''Fix semi with fix-semi''] \<and>
   [''Fix semi with fix-semi''] \<noteq> ([] :: string list) \<and>
   (\<exists>m e t. Map_get (documentFixes server_b) ''file:///w/b.js'' = Some m \<and>
            Map_get m (computeKey_example ''semi'') = Some e \<and>
            documents_get server_b ''file:///w/b.js'' = Some t \<and>
            build_example ''semi'' e t = Inr [''Fix semi with fix-semi''])"
proof -
  have p: "codeAction_b\<lparr> context := \<lparr> diagnostics = ''semi'' # [''quotes''] \<rparr> \<rparr> = codeAction_b"
    by (simp add: codeAction_b_def)
  have u: "uri (textDocument codeAction_b) = ''file:///w/b.js''"
    by (simp add: codeAction_b_def)
  have h: "fst (handleCodeActionRequest computeKey_example build_example server_b codeAction_b
             token_live) = Resolved [''Fix semi with fix-semi'']"
    by (simp add: handleCodeActionRequest_def codeAction_b_def token_live_def server_b_def
          Map_get_def documents_get_def computeKey_example_def build_example_def)
  show ?thesis
    using h code_action_first_diagnostic_only [where computeKey = computeKey_example
        and build = build_example and s = server_b and params = codeAction_b
        and diagnostic = "''semi''" and others = "[''quotes'']" and token = token_live]
    unfolding Let_def p u by blast
qed

section \<open>Closing a document\<close>

lemma close_state:
  "fst (handleDocumentsOnDidClose dirname sendDiagnostics s event) =
     evictFolders (map (\<lambda>d. dirname (uri d)) (documents_all s)) (Map_keys (foldersCache s)) s"
  by (simp add: handleDocumentsOnDidClose_def Let_def)

lemma evict_frame:
  "documentFixes (evictFolders F ks s) = documentFixes s \<and>
   documents (evictFolders F ks s) = documents s"
  by (induction ks arbitrary: s) auto

lemma evict_foldersCache:
  "foldersCache (evictFolders F ks s) =
     filter (\<lambda>entry. fst entry \<in> set F \<or> fst entry \<notin> set ks) (foldersCache s)"
  by (induction ks arbitrary: s) (auto simp: Map_delete_def intro: filter_cong)

lemma evict_xoCache:
  "xoCache (evictFolders F ks s) =
     filter (\<lambda>entry. fst entry \<in> set F \<or> fst entry \<notin> set ks) (xoCache s)"
  by (induction ks arbitrary: s) (auto simp: Map_delete_def intro: filter_cong)

lemma evict_configurationCache:
  "configurationCache (evictFolders F ks s) =
     filter (\<lambda>entry. fst entry \<in> set F \<or> fst entry \<notin> set ks) (configurationCache s)"
  by (induction ks arbitrary: s) (auto simp: Map_delete_def intro: filter_cong)

text \<open>
  Claim C8. On every document-close event the handler's one call to the connection is
  \<^verbatim>\<open>sendDiagnostics\<close> with the closed document's URI and the empty diagnostics array,
  whatever the caches and the fix map hold.
\<close>

theorem close_publishes_empty_diagnostics:
  "snd (snd (handleDocumentsOnDidClose dirname sendDiagnostics s event)) =
     [SendDiagnostics (uri (document event)) []]"
  by (simp add: handleDocumentsOnDidClose_def Let_def)

text \<open>
  Claim C2 as stated fails: after \<open>a.js\<close> is closed, the fix map still has its entry.
\<close>

theorem close_keeps_fixes_counterexample:
  "Map_get (documentFixes (fst (handleDocumentsOnDidClose dirname_example sendDiagnostics_ok
      server_b close_a))) (uri (document close_a)) \<noteq> None"
  by (simp add: close_state evict_frame server_b_def Map_get_def close_a_def document_a_def)

text \<open>
  Claim C2, amended. When a document is closed, the close handler leaves the
  per-document fix map as it was (the closed document's entry stays), and deletes the
  three cache entries (root marker, linter module, configuration) of every folder cached
  in \<open>foldersCache\<close> that is the directory of no open document.
\<close>

theorem close_evicts_cached_folders:
  "let s' = fst (handleDocumentsOnDidClose dirname sendDiagnostics s event);
       open_folders = (\<lambda>d. dirname (uri d)) ` set (documents_all s)
   in documentFixes s' = documentFixes s \<and>
      (\<forall>folder \<in> set (Map_keys (foldersCache s)). folder \<notin> open_folders \<longrightarrow>
         folder \<notin> set (Map_keys (foldersCache s')) \<and>
         folder \<notin> set (Map_keys (xoCache s')) \<and>
         folder \<notin> set (Map_keys (configurationCache s')))"
  unfolding Let_def close_state
  by (auto simp: evict_frame evict_foldersCache evict_xoCache evict_configurationCache
        Map_keys_def intro: rev_image_eqI)

text \<open>
  Claim C2, amended, at the close of \<open>a.js\<close>: folder \<open>v\<close> is cached and has no open
  document, and is gone from the three caches afterwards.
\<close>

theorem close_evicts_cached_folders_witness:
  "''file:///v'' \<in> set (Map_keys (foldersCache server_b)) \<and>
   ''file:///v'' \<notin> (\<lambda>d. dirname_example (uri d)) ` set (documents_all server_b) \<and>
   ''file:///v'' \<notin> set (Map_keys (foldersCache (fst (handleDocumentsOnDidClose dirname_example
       sendDiagnostics_ok server_b close_a)))) \<and>
   ''file:///v'' \<notin> set (Map_keys (xoCache (fst (handleDocumentsOnDidClose dirname_example
       sendDiagnostics_ok server_b close_a)))) \<and>
   ''file:///v'' \<notin> set (Map_keys (configurationCache (fst (handleDocumentsOnDidClose
       dirname_example sendDiagnostics_ok server_b close_a)))) \<and>
   documentFixes (fst (handleDocumentsOnDidClose dirname_example sendDiagnostics_ok server_b
       close_a)) = documentFixes server_b"
proof -
  have h1: "''file:///v'' \<in> set (Map_keys (foldersCache server_b))"
    by (simp add: server_b_def Map_keys_def)
  have h2: "''file:///v'' \<notin> (\<lambda>d. dirname_example (uri d)) ` set (documents_all server_b)"
    by (simp add: server_b_def documents_all_def document_b_def dirname_example_def)
  show ?thesis
    using h1 h2 close_evicts_cached_folders [where dirname = dirname_example
        and sendDiagnostics = sendDiagnostics_ok and s = server_b and event = close_a]
    unfolding Let_def by blast
qed

text \<open>
  Claim C10 as stated fails: no document is open, and after the close handler the module
  cache and the configuration cache still hold the key \<open>file:///v\<close>, which
  \<open>foldersCache\<close> did not have.
\<close>

theorem close_orphan_keys_counterexample:
  "documents_all server_orphan = [] \<and>
   ''file:///v'' \<in> set (Map_keys (xoCache (fst (handleDocumentsOnDidClose dirname_example
       sendDiagnostics_ok server_orphan close_a)))) \<and>
   ''file:///v'' \<in> set (Map_keys (configurationCache (fst (handleDocumentsOnDidClose
       dirname_example sendDiagnostics_ok server_orphan close_a))))"
  by (simp add: close_state server_orphan_def documents_all_def Map_keys_def)

text \<open>
  Claim C10, amended. After the close handler, every key remaining in \<open>foldersCache\<close>
  is \<^verbatim>\<open>path.dirname(uri)\<close> of a still-open document; every key remaining in
  \<open>xoCache\<close> or \<open>configurationCache\<close> is such a directory or was no key of
  \<open>foldersCache\<close> when the handler started. So with no open document \<open>foldersCache\<close>
  is empty, and the other two keep only keys that \<open>foldersCache\<close> did not have.
\<close>

theorem close_remaining_keys:
  "let s' = fst (handleDocumentsOnDidClose dirname sendDiagnostics s event);
       open_folders = (\<lambda>d. dirname (uri d)) ` set (documents_all s);
       visited = set (Map_keys (foldersCache s))
   in set (Map_keys (foldersCache s')) \<subseteq> open_folders \<and>
      set (Map_keys (xoCache s')) \<subseteq> open_folders \<union> (set (Map_keys (xoCache s)) - visited) \<and>
      set (Map_keys (configurationCache s')) \<subseteq>
        open_folders \<union> (set (Map_keys (configurationCache s)) - visited)"
  unfolding Let_def close_state
  by (auto simp: evict_foldersCache evict_xoCache evict_configurationCache Map_keys_def)

text \<open>
  Claim C10, amended, at the close of \<open>a.js\<close> while \<open>b.js\<close> stays open in folder
  \<open>w\<close>, every cache key being one of \<open>foldersCache\<close>: only \<open>file:///w\<close> remains.
\<close>

theorem close_remaining_keys_witness:
  "set (Map_keys (foldersCache (fst (handleDocumentsOnDidClose dirname_example
       sendDiagnostics_ok server_b close_a)))) \<subseteq> {''file:///w''} \<and>
   set (Map_keys (xoCache (fst (handleDocumentsOnDidClose dirname_example
       sendDiagnostics_ok server_b close_a)))) \<subseteq> {''file:///w''} \<and>
   set (Map_keys (configurationCache (fst (handleDocumentsOnDidClose dirname_example
       sendDiagnostics_ok server_b close_a)))) \<subseteq> {''file:///w''}"
proof -
  have d: "(\<lambda>d. dirname_example (uri d)) ` set (documents_all server_b) = {''file:///w''}"
    by (simp add: server_b_def documents_all_def document_b_def dirname_example_def)
  have x: "set (Map_keys (xoCache server_b)) - set (Map_keys (foldersCache server_b)) = {}"
    by (simp add: server_b_def Map_keys_def)
  have c: "set (Map_keys (configurationCache server_b)) -
           set (Map_keys (foldersCache server_b)) = {}"
    by (simp add: server_b_def Map_keys_def)
  show ?thesis
    using close_remaining_keys [where dirname = dirname_example
        and sendDiagnostics = sendDiagnostics_ok and s = server_b and event = close_a]
    unfolding Let_def d x c by simp
qed

end
